theory Spec2Isabelle
  imports Main "HOL-Library.Word"
begin

section \<open>Go strings\<close>

text \<open>
  A Go string is a sequence of bytes, and so is an Isabelle \<open>string\<close>; \<open>len(s)\<close> is
  \<open>length s\<close>. \<open>strings.HasSuffix\<close> and \<open>strings.Split\<close> (with a one-byte separator) are
  written out. \<open>strings.ToLower\<close> belongs to Go's standard library and folds Unicode
  letters; the model takes it as a parameter of every function that calls it, and
  \<open>ascii_ToLower\<close> is what it computes on a string of ASCII bytes.
\<close>

definition HasSuffix :: "string \<Rightarrow> string \<Rightarrow> bool" where
  "HasSuffix s suffix =
     (length suffix \<le> length s \<and> drop (length s - length suffix) s = suffix)"

fun Split_acc :: "char \<Rightarrow> string \<Rightarrow> string \<Rightarrow> string list" where
  "Split_acc sep cur [] = [rev cur]"
| "Split_acc sep cur (c # cs) =
     (if c = sep then rev cur # Split_acc sep [] cs else Split_acc sep (c # cur) cs)"

definition Split :: "string \<Rightarrow> char \<Rightarrow> string list" where
  "Split s sep = Split_acc sep [] s"

definition is_ascii :: "char \<Rightarrow> bool" where
  "is_ascii c = ((of_char c :: nat) < 128)"

definition ascii_lower_char :: "char \<Rightarrow> char" where
  "ascii_lower_char c =
     (if (65::nat) \<le> of_char c \<and> (of_char c :: nat) \<le> 90
      then char_of ((of_char c :: nat) + 32) else c)"

definition ascii_ToLower :: "string \<Rightarrow> string" where
  "ascii_ToLower s = map ascii_lower_char s"

section \<open>Regular expressions, as package regexp matches them\<close>

text \<open>
  The two patterns of the source use character classes with ranges, literal characters,
  concatenation, \<open>?\<close>, \<open>*\<close>, \<open>+\<close> and the bounded repetition \<open>{0,61}\<close>; groups
  \<open>(?:...)\<close> only bracket. \<open>Zero\<close>, \<open>One\<close> and \<open>Alt\<close> are there for the derivatives
  the matcher takes.
\<close>

datatype cls_item = Ch char | Rng char char

fun item_has :: "cls_item \<Rightarrow> char \<Rightarrow> bool" where
  "item_has (Ch a) c = (c = a)"
| "item_has (Rng lo hi) c = ((of_char lo :: nat) \<le> of_char c \<and> (of_char c :: nat) \<le> of_char hi)"

definition cls_has :: "cls_item list \<Rightarrow> char \<Rightarrow> bool" where
  "cls_has its c = list_ex (\<lambda>i. item_has i c) its"

datatype rexp = Zero | One | Cls "cls_item list" | Alt rexp rexp | Seq rexp rexp | Star rexp

definition Lit :: "char \<Rightarrow> rexp" where
  "Lit c = Cls [Ch c]"

definition Opt :: "rexp \<Rightarrow> rexp" where
  "Opt r = Alt One r"

definition Plus :: "rexp \<Rightarrow> rexp" where
  "Plus r = Seq r (Star r)"

primrec Upto :: "nat \<Rightarrow> rexp \<Rightarrow> rexp" where
  "Upto 0 r = One"
| "Upto (Suc n) r = Alt One (Seq r (Upto n r))"

subsection \<open>The words a pattern denotes\<close>

definition conc :: "string set \<Rightarrow> string set \<Rightarrow> string set" where
  "conc A B = {u @ v | u v. u \<in> A \<and> v \<in> B}"

inductive_set star :: "string set \<Rightarrow> string set" for A :: "string set" where
  star_nil: "[] \<in> star A"
| star_app: "u \<in> A \<Longrightarrow> v \<in> star A \<Longrightarrow> u @ v \<in> star A"

primrec lang :: "rexp \<Rightarrow> string set" where
  "lang Zero = {}"
| "lang One = {[]}"
| "lang (Cls its) = {[c] | c. cls_has its c}"
| "lang (Alt r s) = lang r \<union> lang s"
| "lang (Seq r s) = conc (lang r) (lang s)"
| "lang (Star r) = star (lang r)"

subsection \<open>The matcher\<close>

primrec nullable :: "rexp \<Rightarrow> bool" where
  "nullable Zero = False"
| "nullable One = True"
| "nullable (Cls its) = False"
| "nullable (Alt r s) = (nullable r \<or> nullable s)"
| "nullable (Seq r s) = (nullable r \<and> nullable s)"
| "nullable (Star r) = True"

fun alt :: "rexp \<Rightarrow> rexp \<Rightarrow> rexp" where
  "alt Zero s = s"
| "alt r Zero = r"
| "alt r s = Alt r s"

fun seq :: "rexp \<Rightarrow> rexp \<Rightarrow> rexp" where
  "seq Zero s = Zero"
| "seq One s = s"
| "seq r s = Seq r s"

primrec deriv :: "char \<Rightarrow> rexp \<Rightarrow> rexp" where
  "deriv c Zero = Zero"
| "deriv c One = Zero"
| "deriv c (Cls its) = (if cls_has its c then One else Zero)"
| "deriv c (Alt r s) = alt (deriv c r) (deriv c s)"
| "deriv c (Seq r s) =
     (if nullable r then alt (seq (deriv c r) s) (deriv c s) else seq (deriv c r) s)"
| "deriv c (Star r) = seq (deriv c r) (Star r)"

primrec derivs :: "rexp \<Rightarrow> string \<Rightarrow> rexp" where
  "derivs r [] = r"
| "derivs r (c # cs) = derivs (deriv c r) cs"

text \<open>
  \<open>MatchString\<close> of a pattern \<open>^r$\<close>: Go's \<open>^\<close> and \<open>$\<close> (no flags) anchor at the
  beginning and at the end of the text, so the whole string has to match \<open>r\<close>.
\<close>

definition MatchString :: "rexp \<Rightarrow> string \<Rightarrow> bool" where
  "MatchString r s = nullable (derivs r s)"

subsection \<open>The email pattern\<close>

text \<open>
  \<^verbatim>\<open>^[a-zA-Z0-9.!#$%&'*+\/=?^_`{|}~-]+@[a-zA-Z0-9](?:[a-zA-Z0-9-]{0,61}[a-zA-Z0-9])?(?:\.[a-zA-Z0-9](?:[a-zA-Z0-9-]{0,61}[a-zA-Z0-9])?)*$\<close>
  is the pattern of both \<open>emailRegex\<close> (package handlers) and \<open>rxEmail\<close> (package adfs).
\<close>

definition alnum :: "cls_item list" where
  "alnum = [Rng CHR ''a'' CHR ''z'', Rng CHR ''A'' CHR ''Z'', Rng CHR ''0'' CHR ''9'']"

definition local_cls :: "cls_item list" where
  "local_cls = alnum @
     [Ch CHR ''.'', Ch CHR ''!'', Ch CHR ''#'', Ch CHR ''$'', Ch CHR ''%'', Ch CHR ''&'',
      Ch (CHR 0x27), Ch CHR ''*'', Ch CHR ''+'', Ch CHR ''/'', Ch CHR ''='', Ch CHR ''?'',
      Ch CHR ''^'', Ch CHR ''_'', Ch (CHR 0x60), Ch CHR ''{'', Ch CHR ''|'', Ch CHR ''}'',
      Ch CHR ''~'', Ch CHR ''-'']"

definition alnum_hyphen :: "cls_item list" where
  "alnum_hyphen = alnum @ [Ch CHR ''-'']"

definition label_rx :: rexp where
  "label_rx = Seq (Cls alnum) (Opt (Seq (Upto 61 (Cls alnum_hyphen)) (Cls alnum)))"

definition host_rx :: rexp where
  "host_rx = Seq label_rx (Star (Seq (Lit CHR ''.'') label_rx))"

definition emailRegex :: rexp where
  "emailRegex = Seq (Plus (Cls local_cls)) (Seq (Lit CHR ''@'') host_rx)"

definition rxEmail :: rexp where
  "rxEmail = emailRegex"

text \<open>\<open>isEmailValid\<close> checks the length, then the pattern.\<close>

definition isEmailValid :: "string \<Rightarrow> bool" where
  "isEmailValid e =
     (if length e < 3 \<or> length e > 254 then False else MatchString emailRegex e)"

section \<open>Errors and log lines\<close>

text \<open>
  A Go \<open>error\<close> is either handed over by a collaborator (\<open>Err\<close>, with its message) or
  built by \<open>fmt.Errorf\<close> from a format string and its operands, which the model keeps
  side by side instead of rendering the message. A log line keeps its level and its
  format string; \<open>log.Error(err)\<close> keeps the error.
\<close>

datatype sval = SString string | SInt int

datatype error = Err string | Errorf string "arg list"
  and arg = AStr string | AStrs "string list" | AErr error | ANil | AVal sval

datatype level = DebugLevel | InfoLevel | WarnLevel | ErrorLevel

datatype log_entry = Logf level string | LogErr error

section \<open>Configuration and identity records\<close>

text \<open>
  \<open>cfg.Cfg\<close> and \<open>cfg.GenOAuth\<close> are process-wide values that are read only; the model
  passes them to every function that reads them. Only the fields that the sources read
  are kept.
\<close>

record config =
  AllowAllUsers :: bool
  WhiteList :: "string list"
  TeamWhiteList :: "string list"
  Domains :: "string list"
  CaseInsensitiveEmails :: bool
  CaseInsensitiveEmailDomains :: "string list"
  Session_Name :: string
  Branding_FullName :: string

record oauth_config =
  ClientID :: string
  ClientSecret :: string
  RedirectURL :: string
  TokenURL :: string
  CodeChallengeMethod :: string

record User =
  Username :: string
  Name :: string
  Email :: string
  TeamMemberships :: "string list"

record ADFSUser = User +
  Sub :: string
  UPN :: string

record PTokens =
  PAccessToken :: string
  PIdToken :: string

datatype CustomClaims = CustomClaims "(string \<times> string) list"

definition zero_User :: User where
  "zero_User = \<lparr>Username = [], Name = [], Email = [], TeamMemberships = []\<rparr>"

definition zero_PTokens :: PTokens where
  "zero_PTokens = \<lparr>PAccessToken = [], PIdToken = []\<rparr>"

text \<open>
  The functions of other packages that \<open>verifyUser\<close> calls: \<open>strings.ToLower\<close> and
  \<open>domains.IsUnderManagement\<close>, which is not among the sources.
\<close>

record externals =
  strings_ToLower :: "string \<Rightarrow> string"
  domains_IsUnderManagement :: "string \<Rightarrow> bool"

section \<open>The authorization engine\<close>

fun caseInsensitiveDomain_loop :: "(string \<Rightarrow> string) \<Rightarrow> string \<Rightarrow> string list \<Rightarrow> bool" where
  "caseInsensitiveDomain_loop lower lowerUsername [] = False"
| "caseInsensitiveDomain_loop lower lowerUsername (caseInsensitiveDomain # ds) =
     (if HasSuffix lowerUsername (CHR ''@'' # lower caseInsensitiveDomain) then True
      else caseInsensitiveDomain_loop lower lowerUsername ds)"

definition isUsernameCaseInsensitive :: "externals \<Rightarrow> config \<Rightarrow> User \<Rightarrow> bool" where
  "isUsernameCaseInsensitive ext cfg user =
     (if CaseInsensitiveEmails cfg then True
      else caseInsensitiveDomain_loop (strings_ToLower ext)
             (strings_ToLower ext (Username user)) (CaseInsensitiveEmailDomains cfg))"

fun WhiteList_loop :: "(string \<Rightarrow> string) \<Rightarrow> User \<Rightarrow> bool \<Rightarrow> string list \<Rightarrow> bool" where
  "WhiteList_loop lower user usernameIsCaseInsensitive [] = False"
| "WhiteList_loop lower user usernameIsCaseInsensitive (wl # wls) =
     (if Username user = wl \<or>
         (isEmailValid (Username user) \<and> usernameIsCaseInsensitive \<and>
          lower (Username user) = lower wl)
      then True
      else WhiteList_loop lower user usernameIsCaseInsensitive wls)"

fun team_in_loop :: "string \<Rightarrow> string list \<Rightarrow> string option" where
  "team_in_loop team [] = None"
| "team_in_loop team (wl # wls) = (if team = wl then Some wl else team_in_loop team wls)"

fun TeamWhiteList_loop :: "string list \<Rightarrow> string list \<Rightarrow> string option" where
  "TeamWhiteList_loop [] teamWhiteList = None"
| "TeamWhiteList_loop (team # teams) teamWhiteList =
     (case team_in_loop team teamWhiteList of
        Some wl \<Rightarrow> Some wl
      | None \<Rightarrow> TeamWhiteList_loop teams teamWhiteList)"

record verdict =
  ok :: bool
  verr :: "error option"
  vlog :: "log_entry list"

text \<open>
  \<open>verifyUser\<close> takes an \<open>interface{}\<close> and asserts it to be a \<open>structs.User\<close>; its one
  caller passes a \<open>structs.User\<close>, and so does the model. The \<open>switch\<close> takes the first
  case whose condition holds.
\<close>

definition verifyUser :: "externals \<Rightarrow> config \<Rightarrow> User \<Rightarrow> verdict" where
  "verifyUser ext cfg user =
     (if AllowAllUsers cfg then
        \<lparr>ok = True, verr = None,
         vlog = [Logf DebugLevel
           ''verifyUser: Success! skipping verification, cfg.Cfg.AllowAllUsers is %t'']\<rparr>
      else if length (WhiteList cfg) \<noteq> 0 then
        (let usernameIsCaseInsensitive = isUsernameCaseInsensitive ext cfg user in
         if WhiteList_loop (strings_ToLower ext) user usernameIsCaseInsensitive (WhiteList cfg)
         then \<lparr>ok = True, verr = None,
               vlog = [Logf DebugLevel
                 ''verifyUser: Success! found user.Username in WhiteList: %s'']\<rparr>
         else \<lparr>ok = False,
               verr = Some (Errorf ''verifyUser: user.Username not found in WhiteList: %s''
                              [AStr (Username user)]),
               vlog = []\<rparr>)
      else if length (TeamWhiteList cfg) \<noteq> 0 then
        (case TeamWhiteList_loop (TeamMemberships user) (TeamWhiteList cfg) of
           Some wl \<Rightarrow>
             \<lparr>ok = True, verr = None,
              vlog = [Logf DebugLevel
                ''verifyUser: Success! found user.TeamWhiteList in TeamWhiteList: %s for user %s'']\<rparr>
         | None \<Rightarrow>
             \<lparr>ok = False,
              verr = Some (Errorf
                ''verifyUser: user.TeamMemberships %s not found in TeamWhiteList: %s for user %s''
                [AStrs (TeamMemberships user), AStrs (TeamWhiteList cfg), AStr (Username user)]),
              vlog = []\<rparr>)
      else if length (Domains cfg) \<noteq> 0 then
        (if domains_IsUnderManagement ext (Email user) then
           \<lparr>ok = True, verr = None,
            vlog = [Logf DebugLevel
              ''verifyUser: Success! Email %s found within a %s managed domain'']\<rparr>
         else
           \<lparr>ok = False,
            verr = Some (Errorf ''verifyUser: Email %s is not within a %s managed domain''
                           [AStr (Email user), AStr (Branding_FullName cfg)]),
            vlog = []\<rparr>)
      else
        \<lparr>ok = True, verr = None,
         vlog = [Logf WarnLevel
           ''verifyUser: no domains, whitelist, teamWhitelist or AllowAllUsers configured, any successful auth to the IdP authorizes access'']\<rparr>)"

section \<open>Requests, sessions, responses\<close>

text \<open>
  Of a request the handlers read \<open>r.URL.RawQuery\<close> and \<open>r.URL.Query()\<close>, Go's parse of
  it into key/value pairs; the model carries both. \<open>Values.Get\<close> gives the first value
  of a key, and the empty string when the key is absent.
\<close>

record http_request =
  RawQuery :: string
  Query :: "(string \<times> string) list"

fun Values_Get :: "(string \<times> string) list \<Rightarrow> string \<Rightarrow> string" where
  "Values_Get [] k = []"
| "Values_Get ((k', v) # kvs) k = (if k' = k then v else Values_Get kvs k)"

text \<open>
  A session (package sessions) has a map of values and options, of which the handler
  writes \<open>MaxAge\<close>. The keys the handler uses are strings.
\<close>

record session =
  Values :: "string \<rightharpoonup> sval"
  MaxAge :: int

text \<open>
  Modelled from the spec: package responses is not among the sources. Each of its
  functions the handlers call is a constructor, and \<open>status_code\<close> is the status the
  spec gives it (400, 401, 403, 500, redirect 302, rendered page 200).
\<close>

datatype response =
    Error400 error
  | Error401 error
  | Error403 error
  | Error500 error
  | Redirect302 string
  | RenderIndex string

fun status_code :: "response \<Rightarrow> nat" where
  "status_code (Error400 e) = 400"
| "status_code (Error401 e) = 401"
| "status_code (Error403 e) = 403"
| "status_code (Error500 e) = 500"
| "status_code (Redirect302 url) = 302"
| "status_code (RenderIndex msg) = 200"

text \<open>
  What a handler does, in the order it does it: the calls to its collaborators, its log
  lines, and at the end its response, or the panic of a failed type assertion.
\<close>

datatype event =
    Logged log_entry
  | SessionGet
  | GetUserInfo
  | VerifyUser
  | NewVPJWT
  | SetCookie string
  | SessionSave session "error option"
  | Respond response
  | Panic

fun is_SetCookie :: "event \<Rightarrow> bool" where
  "is_SetCookie (SetCookie t) = True"
| "is_SetCookie e = False"

fun is_Logged :: "event \<Rightarrow> bool" where
  "is_Logged (Logged l) = True"
| "is_Logged e = False"

definition cookie_set :: "event list \<Rightarrow> bool" where
  "cookie_set tr = list_ex is_SetCookie tr"

definition calls_before_cookie :: "event list \<Rightarrow> event list" where
  "calls_before_cookie tr =
     takeWhile (\<lambda>e. \<not> is_SetCookie e) (filter (\<lambda>e. \<not> is_Logged e) tr)"

fun responses_of :: "event list \<Rightarrow> response list" where
  "responses_of [] = []"
| "responses_of (Respond r # tr) = r # responses_of tr"
| "responses_of (e # tr) = responses_of tr"

section \<open>The /auth handlers\<close>

definition CallbackHandler :: "http_request \<Rightarrow> event list" where
  "CallbackHandler r =
     (let errorIDP = Values_Get (Query r) ''error'' in
      if errorIDP \<noteq> [] then
        (let errorDescription = Values_Get (Query r) ''error_description'' in
         [Logged (Logf DebugLevel ''/auth''),
          Respond (Error401 (Errorf ''/auth Error from IdP: %s - %s''
                               [AStr errorIDP, AStr errorDescription]))])
      else
        (let queryState = Values_Get (Query r) ''state'' in
         if queryState = [] then
           [Logged (Logf DebugLevel ''/auth''),
            Respond (Error400 (Errorf ''/auth: could not find state in query %s''
                                 [AStr (RawQuery r)]))]
         else
           (let authStateURL = ''/auth/'' @ queryState @ ''/?'' @ RawQuery r in
            [Logged (Logf DebugLevel ''/auth''), Respond (Redirect302 authStateURL)])))"

text \<open>
  What \<open>getUserInfo\<close> leaves in the three records it is given pointers to, the error it
  returns and what it logs.
\<close>

record userinfo_result =
  out_user :: User
  out_claims :: CustomClaims
  out_ptokens :: PTokens
  rerr :: "error option"
  logged :: "log_entry list"

text \<open>
  The collaborators of \<open>AuthStateHandler\<close>: the session that \<open>sessstore.Get\<close> finds for
  the request, the provider behind \<open>getUserInfo\<close> (chosen at startup),
  \<open>jwtmanager.NewVPJWT\<close> and \<open>session.Save\<close>.
\<close>

record auth_env =
  sessstore_Get :: "error + session"
  provider_GetUserInfo ::
    "http_request \<Rightarrow> (string \<times> string) list \<Rightarrow> User \<Rightarrow> CustomClaims \<Rightarrow> PTokens \<Rightarrow> userinfo_result"
  jwtmanager_NewVPJWT :: "User \<Rightarrow> CustomClaims \<Rightarrow> PTokens \<Rightarrow> error + string"
  session_Save :: "session \<Rightarrow> error option"

definition state_arg :: "sval option \<Rightarrow> arg" where
  "state_arg v = (case v of None \<Rightarrow> ANil | Some x \<Rightarrow> AVal x)"

text \<open>
  \<open>session.Values[k].(string)\<close> panics unless the value is there and is a string.
\<close>

definition assert_string :: "sval option \<Rightarrow> string option" where
  "assert_string v = (case v of Some (SString s) \<Rightarrow> Some s | _ \<Rightarrow> None)"

definition authCodeOptions :: "oauth_config \<Rightarrow> session \<Rightarrow> (string \<times> string) list option" where
  "authCodeOptions gen session =
     (if CodeChallengeMethod gen \<noteq> [] then
        (case assert_string (Values session ''codeChallenge'') of
           None \<Rightarrow> None
         | Some codeChallenge \<Rightarrow>
             (case assert_string (Values session ''codeVerifier'') of
                None \<Rightarrow> None
              | Some codeVerifier \<Rightarrow>
                  Some [(''code_challenge'', codeChallenge), (''code_verifier'', codeVerifier)]))
      else Some [])"

definition finish_auth :: "auth_env \<Rightarrow> session \<Rightarrow> string \<Rightarrow> event list" where
  "finish_auth env session tokenstring =
     (case assert_string (Values session ''requestedURL'') of
        None \<Rightarrow> [Panic]
      | Some requestedURL \<Rightarrow>
          if requestedURL \<noteq> [] then
            (let session' = session
                   \<lparr>Values := ((Values session)(''requestedURL'' \<mapsto> SString []))
                                 (requestedURL \<mapsto> SInt 0),
                    MaxAge := - 1\<rparr>
             in case session_Save env session' of
                  Some err \<Rightarrow>
                    [SessionSave session' (Some err), Logged (LogErr err),
                     Respond (Redirect302 requestedURL)]
                | None \<Rightarrow>
                    [SessionSave session' None, Respond (Redirect302 requestedURL)])
          else [Respond (RenderIndex (''/auth '' @ tokenstring))])"

definition AuthStateHandler ::
    "externals \<Rightarrow> config \<Rightarrow> oauth_config \<Rightarrow> auth_env \<Rightarrow> http_request \<Rightarrow> event list" where
  "AuthStateHandler ext cfg gen env r =
     Logged (Logf DebugLevel ''/auth/{state}/'') # SessionGet #
     (case sessstore_Get env of
        Inl err \<Rightarrow>
          [Respond (Error400 (Errorf ''/auth %w: could not find session store %s''
                                [AErr err, AStr (Session_Name cfg)]))]
      | Inr session \<Rightarrow>
          (let queryState = Values_Get (Query r) ''state'' in
           if Values session ''state'' \<noteq> Some (SString queryState) then
             [Respond (Error400 (Errorf ''/auth Invalid session state: stored %s, returned %s''
                                   [state_arg (Values session ''state''), AStr queryState]))]
           else
             (case authCodeOptions gen session of
                None \<Rightarrow> [Panic]
              | Some opts \<Rightarrow>
                  (let res = provider_GetUserInfo env r opts zero_User (CustomClaims [])
                               zero_PTokens
                   in GetUserInfo # map Logged (logged res) @
                      (case rerr res of
                         Some err \<Rightarrow>
                           [Respond (Error400 (Errorf
                              ''/auth Error while retreiving user info after successful login at the OAuth provider: %w''
                              [AErr err]))]
                       | None \<Rightarrow>
                           (let v = verifyUser ext cfg (out_user res) in
                            Logged (Logf DebugLevel ''/auth/{state}/ Claims from userinfo: %+v'') #
                            VerifyUser # map Logged (vlog v) @
                            (if \<not> ok v then
                               [Respond (Error403 (Errorf
                                  ''/auth User is not authorized: %w . Please try again or seek support from your administrator''
                                  [case verr v of None \<Rightarrow> ANil | Some e \<Rightarrow> AErr e]))]
                             else
                               NewVPJWT #
                               (case jwtmanager_NewVPJWT env (out_user res) (out_claims res)
                                       (out_ptokens res) of
                                  Inl err \<Rightarrow>
                                    [Respond (Error500 (Errorf
                                       ''/auth Token creation failure: %w . Please seek support from your administrator''
                                       [AErr err]))]
                                | Inr tokenstring \<Rightarrow>
                                    SetCookie tokenstring #
                                    finish_auth env session tokenstring))))))))"

section \<open>The ADFS adapter\<close>

record adfsTokenRes =
  AccessToken :: string
  TokenType :: string
  IDToken :: string
  ExpiresIn :: "64 word"

record http_response =
  Body :: string
  Close_err :: "error option"

text \<open>
  What the adapter calls outside its package: \<open>http.NewRequest\<close> (by method and URL; it
  fails on neither the body nor the headers), the HTTP client with the form it posts,
  \<open>json.Unmarshal\<close> into the two records, \<open>base64.RawURLEncoding.DecodeString\<close>,
  \<open>common.MapClaims\<close> and \<open>ADFSUser.PrepareUserData\<close>. The last two are not among the
  sources. \<open>json.Unmarshal\<close> into \<open>adfsUser\<close> has its error dropped by the adapter, so
  the model takes only the record it leaves. The request headers are constants and are
  left out.
\<close>

record adfs_env =
  http_NewRequest :: "string \<Rightarrow> string \<Rightarrow> error option"
  client_Do :: "string \<Rightarrow> (string \<times> string) list \<Rightarrow> error + http_response"
  json_Unmarshal_adfsTokenRes :: "string \<Rightarrow> error + adfsTokenRes"
  base64_DecodeString :: "string \<Rightarrow> error + string"
  json_Unmarshal_ADFSUser :: "string \<Rightarrow> ADFSUser"
  common_MapClaims :: "string \<Rightarrow> CustomClaims \<Rightarrow> CustomClaims \<times> error option"
  PrepareUserData :: "ADFSUser \<Rightarrow> ADFSUser"

text \<open>\<open>url.Values.Set\<close> replaces the values of a key.\<close>

definition Values_Set :: "(string \<times> string) list \<Rightarrow> string \<Rightarrow> string \<Rightarrow> (string \<times> string) list" where
  "Values_Set kvs k v = filter (\<lambda>kv. fst kv \<noteq> k) kvs @ [(k, v)]"

definition formData :: "oauth_config \<Rightarrow> string \<Rightarrow> (string \<times> string) list" where
  "formData gen code =
     (let f1 = Values_Set [] ''code'' code;
          f2 = Values_Set f1 ''grant_type'' ''authorization_code'';
          f3 = Values_Set f2 ''resource'' (RedirectURL gen);
          f4 = Values_Set f3 ''client_id'' (ClientID gen);
          f5 = Values_Set f4 ''redirect_uri'' (RedirectURL gen)
      in if ClientSecret gen \<noteq> [] then Values_Set f5 ''client_secret'' (ClientSecret gen)
         else f5)"

text \<open>The email fallback of the adapter, on the record \<open>PrepareUserData\<close> has left.\<close>

definition email_from_UPN :: "ADFSUser \<Rightarrow> ADFSUser" where
  "email_from_UPN adfsUser =
     (if length (Email adfsUser) = 0 then
        (if MatchString rxEmail (UPN adfsUser) then adfsUser\<lparr>Email := UPN adfsUser\<rparr>
         else adfsUser)
      else adfsUser)"

text \<open>
  The part of \<open>GetUserInfoFromADFS\<close> after the response has arrived, up to its
  \<open>return\<close>.
\<close>

definition read_token_response ::
    "adfs_env \<Rightarrow> string \<Rightarrow> User \<Rightarrow> CustomClaims \<Rightarrow> PTokens \<Rightarrow> userinfo_result" where
  "read_token_response env data user customClaims ptokens =
     (case json_Unmarshal_adfsTokenRes env data of
        Inl err \<Rightarrow>
          \<lparr>out_user = user, out_claims = customClaims, out_ptokens = ptokens, rerr = None,
           logged = [Logf DebugLevel ''code: %s'',
                     Logf ErrorLevel ''oauth2: cannot fetch token: %v'']\<rparr>
      | Inr tokenRes \<Rightarrow>
          (let ptokens' = ptokens\<lparr>PAccessToken := AccessToken tokenRes,
                                    PIdToken := IDToken tokenRes\<rparr>;
               s = Split (IDToken tokenRes) CHR ''.''
           in if length s < 2 then
                \<lparr>out_user = user, out_claims = customClaims, out_ptokens = ptokens',
                 rerr = None,
                 logged = [Logf DebugLevel ''code: %s'',
                           Logf ErrorLevel ''jws: invalid token received'']\<rparr>
              else
                (case base64_DecodeString env (s ! 1) of
                   Inl err \<Rightarrow>
                     \<lparr>out_user = user, out_claims = customClaims, out_ptokens = ptokens',
                      rerr = None,
                      logged = [Logf DebugLevel ''code: %s'', LogErr err]\<rparr>
                 | Inr idToken \<Rightarrow>
                     (let adfsUser = json_Unmarshal_ADFSUser env idToken;
                          (customClaims', merr) = common_MapClaims env idToken customClaims
                      in case merr of
                           Some err \<Rightarrow>
                             \<lparr>out_user = user, out_claims = customClaims',
                              out_ptokens = ptokens', rerr = Some err,
                              logged = [Logf DebugLevel ''code: %s'',
                                        Logf DebugLevel ''idToken: %+v'',
                                        Logf InfoLevel ''adfs adfsUser: %+v'',
                                        LogErr err]\<rparr>
                         | None \<Rightarrow>
                             (let adfsUser' = email_from_UPN (PrepareUserData env adfsUser) in
                              \<lparr>out_user = user\<lparr>Username := Username adfsUser',
                                                  Email := Email adfsUser'\<rparr>,
                               out_claims = customClaims', out_ptokens = ptokens',
                               rerr = None,
                               logged = [Logf DebugLevel ''code: %s'',
                                         Logf DebugLevel ''idToken: %+v'',
                                         Logf InfoLevel ''adfs adfsUser: %+v'',
                                         Logf DebugLevel ''User Obj: %+v'']\<rparr>)))))"

text \<open>
  The deferred function closes the body when the adapter returns; if that fails, its
  error replaces the returned one.
\<close>

definition deferred_Close :: "error option \<Rightarrow> userinfo_result \<Rightarrow> userinfo_result" where
  "deferred_Close cerr res = (case cerr of None \<Rightarrow> res | Some err \<Rightarrow> res\<lparr>rerr := Some err\<rparr>)"

definition GetUserInfoFromADFS ::
    "adfs_env \<Rightarrow> oauth_config \<Rightarrow> http_request \<Rightarrow> User \<Rightarrow> CustomClaims \<Rightarrow> PTokens \<Rightarrow> userinfo_result" where
  "GetUserInfoFromADFS env gen r user customClaims ptokens =
     (let code = Values_Get (Query r) ''code'' in
      case http_NewRequest env ''POST'' (TokenURL gen) of
        Some err \<Rightarrow>
          \<lparr>out_user = user, out_claims = customClaims, out_ptokens = ptokens,
           rerr = Some err, logged = [Logf DebugLevel ''code: %s'']\<rparr>
      | None \<Rightarrow>
          (case client_Do env (TokenURL gen) (formData gen code) of
             Inl err \<Rightarrow>
               \<lparr>out_user = user, out_claims = customClaims, out_ptokens = ptokens,
                rerr = Some err, logged = [Logf DebugLevel ''code: %s'']\<rparr>
           | Inr userinfo \<Rightarrow>
               deferred_Close (Close_err userinfo)
                 (read_token_response env (Body userinfo) user customClaims ptokens)))"

text \<open>
  With the ADFS provider configured, \<open>getUserInfo\<close> is the adapter; it takes no
  auth-code options.
\<close>

definition adfs_provider ::
    "adfs_env \<Rightarrow> oauth_config \<Rightarrow> http_request \<Rightarrow> (string \<times> string) list \<Rightarrow> User \<Rightarrow> CustomClaims \<Rightarrow> PTokens
       \<Rightarrow> userinfo_result" where
  "adfs_provider env gen r opts user customClaims ptokens =
     GetUserInfoFromADFS env gen r user customClaims ptokens"

section \<open>Two requests on one session\<close>

text \<open>
  A session is written only by \<open>session.Save\<close>. When a request ends without calling it,
  the next request with the same session cookie finds the session as it was, whatever
  store is behind \<open>sessstore\<close>; \<open>auth_twice\<close> then runs the handler a second time on the
  same session and the same request. What a later request finds after a \<open>Save\<close> depends
  on the store and on the client, and is left open (\<open>None\<close>).
\<close>

fun is_SessionSave :: "event \<Rightarrow> bool" where
  "is_SessionSave (SessionSave s err) = True"
| "is_SessionSave e = False"

definition auth_twice ::
    "externals \<Rightarrow> config \<Rightarrow> oauth_config \<Rightarrow> auth_env \<Rightarrow> session \<Rightarrow> http_request
       \<Rightarrow> event list \<times> event list option" where
  "auth_twice ext cfg gen env session r =
     (let first = AuthStateHandler ext cfg gen (env\<lparr>sessstore_Get := Inr session\<rparr>) r
      in if list_ex is_SessionSave first then (first, None)
         else (first, Some (AuthStateHandler ext cfg gen (env\<lparr>sessstore_Get := Inr session\<rparr>) r)))"

section \<open>The whitelist rule in the words of the specification\<close>

text \<open>
  The domain of an email address is what follows its \<open>@\<close>. The specification folds
  case "on both sides" when the username is a valid email and either
  \<open>CaseInsensitiveEmails\<close> is set or the domain is one of
  \<open>CaseInsensitiveEmailDomains\<close>; its scenario S5 lists \<open>example.com\<close> and folds for
  \<open>bob@EXAMPLE.COM\<close>, so the domain is looked up with its case folded as well.
  Otherwise the comparison is exact.
\<close>

definition email_domain :: "string \<Rightarrow> string" where
  "email_domain e = drop 1 (dropWhile (\<lambda>c. c \<noteq> CHR ''@'') e)"

definition case_folded_spec :: "externals \<Rightarrow> config \<Rightarrow> string \<Rightarrow> bool" where
  "case_folded_spec ext cfg username =
     (isEmailValid username \<and>
      (CaseInsensitiveEmails cfg \<or>
       (\<exists>d \<in> set (CaseInsensitiveEmailDomains cfg).
          strings_ToLower ext (email_domain username) = strings_ToLower ext d)))"

definition WhiteList_spec :: "externals \<Rightarrow> config \<Rightarrow> User \<Rightarrow> bool" where
  "WhiteList_spec ext cfg user =
     (\<exists>wl \<in> set (WhiteList cfg).
        Username user = wl \<or>
        (case_folded_spec ext cfg (Username user) \<and>
         strings_ToLower ext (Username user) = strings_ToLower ext wl))"

text \<open>
  What is known of \<open>strings.ToLower\<close>: on a string of ASCII bytes it folds the letters
  \<open>A\<close> to \<open>Z\<close> and keeps every other byte.
\<close>

definition folds_ascii :: "(string \<Rightarrow> string) \<Rightarrow> bool" where
  "folds_ascii lower = (\<forall>s. list_all is_ascii s \<longrightarrow> lower s = ascii_ToLower s)"

section \<open>Sample inputs\<close>

text \<open>
  Concrete collaborators, configurations and users on which the theorems below are run.
  \<open>ext_ascii\<close> folds ASCII letters and manages the one domain \<open>example.com\<close>;
  \<open>cfg_S5\<close> and \<open>user_S5\<close> are scenario S5 of the specification.
\<close>

definition ext_ascii :: externals where
  "ext_ascii = \<lparr>strings_ToLower = ascii_ToLower,
                 domains_IsUnderManagement = (\<lambda>email. HasSuffix email ''@example.com'')\<rparr>"

definition cfg_none :: config where
  "cfg_none = \<lparr>AllowAllUsers = False, WhiteList = [], TeamWhiteList = [], Domains = [],
                CaseInsensitiveEmails = False, CaseInsensitiveEmailDomains = [],
                Session_Name = ''VouchSession'', Branding_FullName = ''Vouch Proxy''\<rparr>"

definition long_email :: string where
  "long_email = replicate 250 CHR ''a'' @ ''@b.cd''"

definition cfg_S5 :: config where
  "cfg_S5 = cfg_none\<lparr>WhiteList := [''Bob@Example.com''],
                      CaseInsensitiveEmailDomains := [''example.com'']\<rparr>"

definition user_S5 :: User where
  "user_S5 = zero_User\<lparr>Username := ''bob@EXAMPLE.COM'', Email := ''bob@EXAMPLE.COM''\<rparr>"

definition cfg_all_modes :: config where
  "cfg_all_modes = cfg_S5\<lparr>TeamWhiteList := [''staff''], Domains := [''example.com'']\<rparr>"

definition user_alice :: User where
  "user_alice = zero_User\<lparr>Username := ''alice@example.com'', Email := ''alice@example.com'',
                           TeamMemberships := [''dev'', ''staff'']\<rparr>"

text \<open>
  Scenario S1 of the specification: the callback \<open>/auth?code=C1&state=S1\<close>, the session
  \<open>/login\<close> left for it, and an ADFS token endpoint. The stubs stand for Go's JSON and
  base64 decoders on the three bodies used here: a well-formed token response whose
  id_token carries the user of scenario S6 (no email, UPN \<open>carol@corp.local\<close>), one whose
  id_token is no JWS, and any other body, which is no JSON.
\<close>

definition gen_S1 :: oauth_config where
  "gen_S1 = \<lparr>ClientID = ''vouch'', ClientSecret = ''secret'',
              RedirectURL = ''https://vouch.example.com/auth'',
              TokenURL = ''https://adfs.example.com/adfs/oauth2/token'',
              CodeChallengeMethod = []\<rparr>"

definition request_S1 :: http_request where
  "request_S1 = \<lparr>RawQuery = ''code=C1&state=S1'',
                  Query = [(''code'', ''C1''), (''state'', ''S1'')]\<rparr>"

definition request_error :: http_request where
  "request_error =
     \<lparr>RawQuery = ''error=access_denied&error_description=denied&state=S1'',
      Query = [(''error'', ''access_denied''), (''error_description'', ''denied''),
               (''state'', ''S1'')]\<rparr>"

definition request_no_state :: http_request where
  "request_no_state = \<lparr>RawQuery = ''code=C1'', Query = [(''code'', ''C1'')]\<rparr>"

definition session_S1 :: session where
  "session_S1 =
     \<lparr>Values = [''state'' \<mapsto> SString ''S1'',
                 ''requestedURL'' \<mapsto> SString ''https://app.example.com/x''],
      MaxAge = 300\<rparr>"

definition session_no_url :: session where
  "session_no_url =
     \<lparr>Values = [''state'' \<mapsto> SString ''S1'', ''requestedURL'' \<mapsto> SString []],
      MaxAge = 300\<rparr>"

definition user_carol :: ADFSUser where
  "user_carol = \<lparr>Username = [], Name = [], Email = [], TeamMemberships = [],
                  Sub = ''carol'', UPN = ''carol@corp.local''\<rparr>"

definition zero_ADFSUser :: ADFSUser where
  "zero_ADFSUser = \<lparr>Username = [], Name = [], Email = [], TeamMemberships = [],
                     Sub = [], UPN = []\<rparr>"

definition parse_token_stub :: "string \<Rightarrow> error + adfsTokenRes" where
  "parse_token_stub data =
     (if data = ''token-response'' then
        Inr \<lparr>AccessToken = ''AT'', TokenType = ''bearer'', IDToken = ''header.payload.sig'',
             ExpiresIn = 3600\<rparr>
      else if data = ''token-response-bad-jws'' then
        Inr \<lparr>AccessToken = ''AT'', TokenType = ''bearer'', IDToken = ''not-a-jws'',
             ExpiresIn = 3600\<rparr>
      else Inl (Err ''invalid character''))"

definition decode_stub :: "string \<Rightarrow> error + string" where
  "decode_stub s = (if s = ''payload'' then Inr ''claims-json''
                    else Inl (Err ''illegal base64 data''))"

definition parse_user_stub :: "string \<Rightarrow> ADFSUser" where
  "parse_user_stub s = (if s = ''claims-json'' then user_carol else zero_ADFSUser)"

definition map_claims_stub :: "string \<Rightarrow> CustomClaims \<Rightarrow> CustomClaims \<times> error option" where
  "map_claims_stub s claims = (claims, None)"

definition prepare_stub :: "ADFSUser \<Rightarrow> ADFSUser" where
  "prepare_stub u = u\<lparr>Username := UPN u\<rparr>"

definition new_request_stub :: "string \<Rightarrow> string \<Rightarrow> error option" where
  "new_request_stub method url = None"

definition respond_with :: "string \<Rightarrow> string \<Rightarrow> (string \<times> string) list \<Rightarrow> error + http_response" where
  "respond_with body url form = Inr \<lparr>Body = body, Close_err = None\<rparr>"

definition unreachable :: "string \<Rightarrow> (string \<times> string) list \<Rightarrow> error + http_response" where
  "unreachable url form = Inl (Err ''dial tcp: connection refused'')"

definition adfs_env_with ::
    "(string \<Rightarrow> (string \<times> string) list \<Rightarrow> error + http_response) \<Rightarrow> adfs_env" where
  "adfs_env_with endpoint = \<lparr>http_NewRequest = new_request_stub, client_Do = endpoint,
     json_Unmarshal_adfsTokenRes = parse_token_stub, base64_DecodeString = decode_stub,
     json_Unmarshal_ADFSUser = parse_user_stub, common_MapClaims = map_claims_stub,
     PrepareUserData = prepare_stub\<rparr>"

definition mint_ok :: "User \<Rightarrow> CustomClaims \<Rightarrow> PTokens \<Rightarrow> error + string" where
  "mint_ok u c p = Inr (''jwt:'' @ Username u)"

definition mint_fails :: "User \<Rightarrow> CustomClaims \<Rightarrow> PTokens \<Rightarrow> error + string" where
  "mint_fails u c p = Inl (Err ''no signing key'')"

definition save_ok :: "session \<Rightarrow> error option" where
  "save_ok s = None"

definition auth_env_adfs ::
    "(string \<Rightarrow> (string \<times> string) list \<Rightarrow> error + http_response) \<Rightarrow> session \<Rightarrow> auth_env" where
  "auth_env_adfs endpoint session =
     \<lparr>sessstore_Get = Inr session,
      provider_GetUserInfo = adfs_provider (adfs_env_with endpoint) gen_S1,
      jwtmanager_NewVPJWT = mint_ok, session_Save = save_ok\<rparr>"

definition cfg_carol :: config where
  "cfg_carol = cfg_none\<lparr>WhiteList := [''carol@corp.local'']\<rparr>"

definition auth_env_no_session :: auth_env where
  "auth_env_no_session =
     (auth_env_adfs (respond_with ''token-response'') session_S1)
       \<lparr>sessstore_Get := Inl (Err ''securecookie: the value is not valid'')\<rparr>"

definition auth_env_mint_fails :: auth_env where
  "auth_env_mint_fails =
     (auth_env_adfs (respond_with ''token-response'') session_S1)
       \<lparr>jwtmanager_NewVPJWT := mint_fails\<rparr>"

section \<open>The matcher decides the language of the pattern\<close>

lemma conc_nil_iff: "[] \<in> conc A B \<longleftrightarrow> [] \<in> A \<and> [] \<in> B"
  by (auto simp: conc_def)

lemma conc_Cons_iff:
  "c # w \<in> conc A B \<longleftrightarrow>
     ([] \<in> A \<and> c # w \<in> B) \<or> (\<exists>u v. w = u @ v \<and> c # u \<in> A \<and> v \<in> B)"
  by (auto simp: conc_def Cons_eq_append_conv)

lemma star_Cons_iff:
  "c # w \<in> star A \<longleftrightarrow> (\<exists>u v. w = u @ v \<and> c # u \<in> A \<and> v \<in> star A)"
proof
  assume "c # w \<in> star A"
  then show "\<exists>u v. w = u @ v \<and> c # u \<in> A \<and> v \<in> star A"
  proof (induction "c # w" arbitrary: w rule: star.induct)
    case (star_app u v)
    then show ?case by (cases u) auto
  qed
next
  assume "\<exists>u v. w = u @ v \<and> c # u \<in> A \<and> v \<in> star A"
  then obtain u v where "w = u @ v" "c # u \<in> A" "v \<in> star A" by blast
  then show "c # w \<in> star A" using star_app [of "c # u" A v] by simp
qed

lemma nullable_iff: "nullable r \<longleftrightarrow> [] \<in> lang r"
  by (induction r) (auto simp: conc_nil_iff intro: star_nil)

lemma lang_alt: "lang (alt r s) = lang r \<union> lang s"
  by (induction r s rule: alt.induct) auto

lemma lang_seq: "lang (seq r s) = conc (lang r) (lang s)"
  by (induction r s rule: seq.induct) (auto simp: conc_def)

lemma lang_deriv: "lang (deriv c r) = {w. c # w \<in> lang r}"
proof (induction r)
  case (Seq r s)
  then show ?case
    by (auto simp: lang_alt lang_seq conc_Cons_iff nullable_iff) (auto simp: conc_def)
next
  case (Star r)
  then show ?case
    by (auto simp: lang_seq star_Cons_iff) (auto simp: conc_def)
qed (auto simp: lang_alt)

lemma lang_derivs: "lang (derivs r s) = {w. s @ w \<in> lang r}"
  by (induction s arbitrary: r) (auto simp: lang_deriv)

lemma MatchString_iff: "MatchString r s \<longleftrightarrow> s \<in> lang r"
  by (simp add: MatchString_def nullable_iff lang_derivs)

subsection \<open>The bytes of a matching string\<close>

lemma conc_lists: "A \<subseteq> lists S \<Longrightarrow> B \<subseteq> lists S \<Longrightarrow> conc A B \<subseteq> lists S"
  by (fastforce simp: conc_def in_lists_conv_set subset_iff)

lemma star_lists:
  assumes "A \<subseteq> lists S"
  shows "star A \<subseteq> lists S"
proof
  fix w assume "w \<in> star A"
  then show "w \<in> lists S"
    using assms by (induction rule: star.induct) auto
qed

lemma Upto_lists: "lang r \<subseteq> lists S \<Longrightarrow> lang (Upto n r) \<subseteq> lists S"
proof (induction n)
  case 0
  then show ?case by simp
next
  case (Suc n)
  then have "conc (lang r) (lang (Upto n r)) \<subseteq> lists S" by (intro conc_lists) auto
  then show ?case by auto
qed

lemma alnum_host_char: "cls_has alnum c \<Longrightarrow> c \<noteq> CHR ''@'' \<and> is_ascii c"
  by (auto simp: cls_has_def alnum_def is_ascii_def)

lemma alnum_hyphen_host_char: "cls_has alnum_hyphen c \<Longrightarrow> c \<noteq> CHR ''@'' \<and> is_ascii c"
  using alnum_host_char [of c] by (auto simp: cls_has_def alnum_hyphen_def is_ascii_def)

lemma local_cls_char: "cls_has local_cls c \<Longrightarrow> c \<noteq> CHR ''@'' \<and> is_ascii c"
  using alnum_host_char [of c] by (auto simp: cls_has_def local_cls_def is_ascii_def)

lemma Cls_lists: "(\<And>c. cls_has its c \<Longrightarrow> c \<in> S) \<Longrightarrow> lang (Cls its) \<subseteq> lists S"
  by auto

lemma label_lists: "lang label_rx \<subseteq> lists {c. c \<noteq> CHR ''@'' \<and> is_ascii c}"
  unfolding label_rx_def Opt_def lang.simps
  by (intro conc_lists Un_least Upto_lists Cls_lists)
     (auto dest: alnum_host_char alnum_hyphen_host_char)

lemma host_lists: "lang host_rx \<subseteq> lists {c. c \<noteq> CHR ''@'' \<and> is_ascii c}"
  unfolding host_rx_def Lit_def lang.simps
  by (intro conc_lists star_lists label_lists Cls_lists)
     (auto simp: cls_has_def is_ascii_def)

lemma local_lists: "lang (Plus (Cls local_cls)) \<subseteq> lists {c. c \<noteq> CHR ''@'' \<and> is_ascii c}"
  unfolding Plus_def lang.simps
  by (intro conc_lists star_lists Cls_lists) (auto dest: local_cls_char)

lemma emailRegex_shape:
  assumes "MatchString emailRegex e"
  shows "\<exists>l h. e = l @ CHR ''@'' # h \<and> CHR ''@'' \<notin> set l \<and> CHR ''@'' \<notin> set h \<and>
               list_all is_ascii l \<and> list_all is_ascii h"
proof -
  from assms have "e \<in> conc (lang (Plus (Cls local_cls))) (conc (lang (Lit CHR ''@'')) (lang host_rx))"
    by (simp add: MatchString_iff emailRegex_def)
  then obtain l h where e: "e = l @ CHR ''@'' # h"
    and l: "l \<in> lang (Plus (Cls local_cls))" and h: "h \<in> lang host_rx"
    by (auto simp: conc_def Lit_def cls_has_def)
  from l local_lists have "l \<in> lists {c. c \<noteq> CHR ''@'' \<and> is_ascii c}" by blast
  moreover from h host_lists have "h \<in> lists {c. c \<noteq> CHR ''@'' \<and> is_ascii c}" by blast
  ultimately show ?thesis using e by (auto simp: list_all_iff)
qed

section \<open>Strings\<close>

lemma HasSuffix_iff: "HasSuffix s t \<longleftrightarrow> (\<exists>p. s = p @ t)"
proof
  assume "HasSuffix s t"
  then have "s = take (length s - length t) s @ t"
    by (metis HasSuffix_def append_take_drop_id)
  then show "\<exists>p. s = p @ t" ..
next
  assume "\<exists>p. s = p @ t"
  then show "HasSuffix s t" by (auto simp: HasSuffix_def)
qed

lemma unique_split:
  assumes "c \<notin> set l" "c \<notin> set h" "l @ c # h = p @ c # x"
  shows "x = h"
  using assms by (auto simp: append_eq_append_conv2 Cons_eq_append_conv append_eq_Cons_conv)

lemma ascii_lower_char_at: "ascii_lower_char c = CHR ''@'' \<longleftrightarrow> c = CHR ''@''"
proof (cases "(65::nat) \<le> of_char c \<and> (of_char c :: nat) \<le> 90")
  case True
  then have "(of_char (ascii_lower_char c) :: nat) = of_char c + 32"
    by (simp add: ascii_lower_char_def)
  then have "ascii_lower_char c \<noteq> CHR ''@''" using True by auto
  moreover have "c \<noteq> CHR ''@''" using True by auto
  ultimately show ?thesis by simp
next
  case False
  then show ?thesis by (auto simp: ascii_lower_char_def)
qed

lemma ascii_ToLower_no_at:
  assumes "CHR ''@'' \<notin> set s"
  shows "CHR ''@'' \<notin> set (ascii_ToLower s)"
proof
  assume "CHR ''@'' \<in> set (ascii_ToLower s)"
  then obtain x where x: "x \<in> set s" and "ascii_lower_char x = CHR ''@''"
    by (auto simp: ascii_ToLower_def)
  then have "x = CHR ''@''" by (simp add: ascii_lower_char_at)
  with x assms show False by simp
qed

lemma email_domain_split: "CHR ''@'' \<notin> set l \<Longrightarrow> email_domain (l @ CHR ''@'' # h) = h"
  by (induction l) (auto simp: email_domain_def)

lemma caseInsensitiveDomain_loop_iff:
  "caseInsensitiveDomain_loop lower lu ds \<longleftrightarrow>
     (\<exists>d \<in> set ds. HasSuffix lu (CHR ''@'' # lower d))"
  by (induction ds) auto

lemma suffix_is_domain:
  assumes lower: "folds_ascii lower" and valid: "MatchString emailRegex u"
  shows "HasSuffix (lower u) (CHR ''@'' # x) \<longleftrightarrow> lower (email_domain u) = x"
proof -
  from valid obtain l h where u: "u = l @ CHR ''@'' # h"
    and l: "CHR ''@'' \<notin> set l" and h: "CHR ''@'' \<notin> set h"
    and al: "list_all is_ascii l" and ah: "list_all is_ascii h"
    using emailRegex_shape by blast
  have "list_all is_ascii u" using u al ah by (simp add: is_ascii_def)
  with lower have lu: "lower u = ascii_ToLower l @ CHR ''@'' # ascii_ToLower h"
    by (simp add: folds_ascii_def u ascii_ToLower_def ascii_lower_char_def)
  have dom: "lower (email_domain u) = ascii_ToLower h"
    using lower ah l by (simp add: folds_ascii_def u email_domain_split)
  show ?thesis
  proof
    assume "HasSuffix (lower u) (CHR ''@'' # x)"
    then obtain p where "ascii_ToLower l @ CHR ''@'' # ascii_ToLower h = p @ CHR ''@'' # x"
      by (auto simp: HasSuffix_iff lu)
    then have "x = ascii_ToLower h"
      using unique_split [of "CHR ''@''" "ascii_ToLower l" "ascii_ToLower h" p x]
            ascii_ToLower_no_at l h by blast
    then show "lower (email_domain u) = x" by (simp add: dom)
  next
    assume "lower (email_domain u) = x"
    then show "HasSuffix (lower u) (CHR ''@'' # x)"
      by (auto simp: HasSuffix_iff lu dom)
  qed
qed

lemma folds_ascii_ascii_ToLower: "folds_ascii ascii_ToLower"
  by (simp add: folds_ascii_def)

lemma eq_char_of_iff: "c = char_of (n::nat) \<longleftrightarrow> of_char c = take_bit 8 n"
  using char_of_eq_iff [of n c] by auto

lemma S5_lower:
  "ascii_ToLower ''bob@EXAMPLE.COM'' = ''bob@example.com''"
  "ascii_ToLower ''Bob@Example.com'' = ''bob@example.com''"
  "ascii_ToLower ''example.com'' = ''example.com''"
  by (simp_all add: ascii_ToLower_def ascii_lower_char_def char_of_eq_iff)

lemma alice_lower: "ascii_ToLower ''alice@example.com'' = ''alice@example.com''"
  by (simp add: ascii_ToLower_def ascii_lower_char_def char_of_eq_iff)

section \<open>The loops of the authorization engine\<close>

lemma WhiteList_loop_iff:
  "WhiteList_loop lower user ci wls \<longleftrightarrow>
     (\<exists>wl \<in> set wls. Username user = wl \<or>
        (isEmailValid (Username user) \<and> ci \<and> lower (Username user) = lower wl))"
  by (induction wls) auto

lemma team_in_loop_None: "team_in_loop team wls = None \<longleftrightarrow> team \<notin> set wls"
  by (induction wls) auto

lemma TeamWhiteList_loop_None:
  "TeamWhiteList_loop teams wls = None \<longleftrightarrow> set teams \<inter> set wls = {}"
proof (induction teams)
  case Nil
  then show ?case by simp
next
  case (Cons team teams)
  show ?case
  proof (cases "team_in_loop team wls")
    case None
    then have "team \<notin> set wls" by (simp add: team_in_loop_None)
    with None Cons show ?thesis by simp
  next
    case (Some wl)
    then have "team \<in> set wls" using team_in_loop_None [of team wls] by auto
    with Some show ?thesis by auto
  qed
qed

lemma ok_verifyUser:
  "ok (verifyUser ext cfg user) \<longleftrightarrow>
     (if AllowAllUsers cfg then True
      else if WhiteList cfg \<noteq> [] then
        WhiteList_loop (strings_ToLower ext) user (isUsernameCaseInsensitive ext cfg user)
          (WhiteList cfg)
      else if TeamWhiteList cfg \<noteq> [] then
        set (TeamMemberships user) \<inter> set (TeamWhiteList cfg) \<noteq> {}
      else if Domains cfg \<noteq> [] then domains_IsUnderManagement ext (Email user)
      else True)"
proof (cases "TeamWhiteList_loop (TeamMemberships user) (TeamWhiteList cfg)")
  case None
  then have "set (TeamMemberships user) \<inter> set (TeamWhiteList cfg) = {}"
    by (simp add: TeamWhiteList_loop_None)
  with None show ?thesis by (simp add: verifyUser_def Let_def)
next
  case (Some wl)
  then have "set (TeamMemberships user) \<inter> set (TeamWhiteList cfg) \<noteq> {}"
    using TeamWhiteList_loop_None [of "TeamMemberships user" "TeamWhiteList cfg"] by simp
  with Some show ?thesis by (simp add: verifyUser_def Let_def)
qed

section \<open>Runs on the sample inputs\<close>

lemma long_match: "MatchString emailRegex long_email"
  by code_simp

lemma short_match: "MatchString emailRegex ''a@b''"
  by code_simp

lemma S5_valid: "isEmailValid ''bob@EXAMPLE.COM''"
  by code_simp

lemma S5_suffix: "HasSuffix ''bob@example.com'' ''@example.com''"
  by (simp add: HasSuffix_def)

lemma priority_runs:
  "ok (verifyUser ext_ascii (cfg_all_modes\<lparr>AllowAllUsers := True\<rparr>) user_alice)"
  "\<not> ok (verifyUser ext_ascii cfg_all_modes user_alice)"
  "ok (verifyUser ext_ascii (cfg_all_modes\<lparr>WhiteList := []\<rparr>) user_alice)"
  "\<not> ok (verifyUser ext_ascii (cfg_all_modes\<lparr>WhiteList := [], TeamWhiteList := []\<rparr>)
          (user_alice\<lparr>Email := ''alice@example.net''\<rparr>))"
  "ok (verifyUser ext_ascii cfg_none user_alice)"
  by (simp_all add: verifyUser_def cfg_all_modes_def cfg_S5_def cfg_none_def user_alice_def
        zero_User_def isUsernameCaseInsensitive_def ext_ascii_def S5_lower alice_lower
        HasSuffix_def)

section \<open>Traces of the handlers\<close>

lemma Values_Get_map_of:
  "Values_Get q k = (case map_of q k of None \<Rightarrow> [] | Some v \<Rightarrow> v)"
  by (induction q) auto

lemma responses_of_append: "responses_of (xs @ ys) = responses_of xs @ responses_of ys"
  by (induction xs rule: responses_of.induct) auto

lemma responses_of_Logged [simp]: "responses_of (map Logged ls) = []"
  by (induction ls) auto

lemma filter_SetCookie_Logged [simp]: "filter is_SetCookie (map Logged ls) = []"
  by (induction ls) auto

lemma filter_calls_Logged [simp]: "filter (\<lambda>e. \<not> is_Logged e) (map Logged ls) = []"
  by (induction ls) auto

lemma GetUserInfo_Logged [simp]: "GetUserInfo \<notin> set (map Logged ls)"
  by (induction ls) auto

lemma cookie_set_filter: "cookie_set tr \<longleftrightarrow> filter is_SetCookie tr \<noteq> []"
  by (induction tr) (auto simp: cookie_set_def)

lemma finish_auth_no_cookie [simp]: "filter is_SetCookie (finish_auth env session t) = []"
  by (simp add: finish_auth_def Let_def split: option.split)

lemma out_user_deferred_Close [simp]: "out_user (deferred_Close cerr res) = out_user res"
  by (simp add: deferred_Close_def split: option.split)

section \<open>Runs of the handlers on the sample inputs\<close>

lemmas sample_defs =
  gen_S1_def request_S1_def request_error_def request_no_state_def session_S1_def
  session_no_url_def user_carol_def zero_ADFSUser_def parse_token_stub_def decode_stub_def
  parse_user_stub_def map_claims_stub_def prepare_stub_def new_request_stub_def
  respond_with_def unreachable_def adfs_env_with_def mint_ok_def mint_fails_def save_ok_def
  auth_env_adfs_def cfg_carol_def cfg_none_def zero_User_def zero_PTokens_def

lemmas adfs_defs =
  adfs_provider_def GetUserInfoFromADFS_def read_token_response_def deferred_Close_def
  email_from_UPN_def formData_def Values_Set_def Split_def

lemma carol_match: "MatchString rxEmail ''carol@corp.local''"
  by code_simp

lemmas handler_defs =
  AuthStateHandler_def finish_auth_def authCodeOptions_def assert_string_def state_arg_def
  cookie_set_def calls_before_cookie_def verifyUser_def isUsernameCaseInsensitive_def Let_def

lemmas run_defs = handler_defs sample_defs adfs_defs auth_env_no_session_def
  auth_env_mint_fails_def cfg_S5_def ext_ascii_def

lemma step_runs:
  "sessstore_Get auth_env_no_session = Inl (Err ''securecookie: the value is not valid'')"
  "sessstore_Get (auth_env_adfs endpoint session) = Inr session"
  "Values session_S1 ''state'' = Some (SString ''S1'')"
  "Values_Get (Query request_S1) ''state'' = ''S1''"
  "Values_Get (Query request_no_state) ''state'' = []"
  "authCodeOptions gen_S1 session = Some []"
  "rerr (provider_GetUserInfo (auth_env_adfs unreachable session_S1) request_S1 []
           zero_User (CustomClaims []) zero_PTokens) = Some (Err ''dial tcp: connection refused'')"
  by (simp_all add: run_defs)

lemma carol_runs:
  "rerr (provider_GetUserInfo (auth_env_adfs (respond_with ''token-response'') session_S1)
           request_S1 [] zero_User (CustomClaims []) zero_PTokens) = None"
  "out_user (provider_GetUserInfo (auth_env_adfs (respond_with ''token-response'') session_S1)
           request_S1 [] zero_User (CustomClaims []) zero_PTokens) =
     \<lparr>Username = ''carol@corp.local'', Name = [], Email = ''carol@corp.local'',
      TeamMemberships = []\<rparr>"
  "provider_GetUserInfo auth_env_mint_fails = 
     provider_GetUserInfo (auth_env_adfs (respond_with ''token-response'') session_S1)"
  "sessstore_Get auth_env_mint_fails = Inr session_S1"
  "jwtmanager_NewVPJWT auth_env_mint_fails u c p = Inl (Err ''no signing key'')"
  using carol_match by (simp_all add: run_defs)

lemma carol_lower: "ascii_ToLower ''carol@corp.local'' = ''carol@corp.local''"
  by (simp add: ascii_ToLower_def ascii_lower_char_def char_of_eq_iff)

lemma carol_verdicts:
  "ok (verifyUser ext_ascii cfg_carol
     \<lparr>Username = ''carol@corp.local'', Name = [], Email = ''carol@corp.local'',
      TeamMemberships = []\<rparr>)"
  "\<not> ok (verifyUser ext_ascii cfg_S5
     \<lparr>Username = ''carol@corp.local'', Name = [], Email = ''carol@corp.local'',
      TeamMemberships = []\<rparr>)"
  by (simp_all add: verifyUser_def cfg_carol_def cfg_S5_def cfg_none_def ext_ascii_def
        carol_lower S5_lower)

lemma S1_cookie:
  "cookie_set (AuthStateHandler ext_ascii cfg_carol gen_S1
      (auth_env_adfs (respond_with ''token-response'') session_S1) request_S1)"
  using carol_match by (simp add: run_defs)

lemma S1_exchange:
  "GetUserInfo \<in> set (AuthStateHandler ext_ascii cfg_carol gen_S1
      (auth_env_adfs (respond_with ''token-response'') session_S1) request_S1)"
  by (simp add: AuthStateHandler_def authCodeOptions_def sample_defs Let_def)

section \<open>The claims\<close>

text \<open>
  Claim C1, as stated: verifyUser rejects every User with an empty Username, whatever
  mode is configured. \<open>verifyUser\<close> never looks at the Username outside WhiteList mode,
  so with \<open>AllowAllUsers\<close> set the zero-valued User is allowed.
\<close>

theorem verifyUser_empty_Username_counterexample:
  "ok (verifyUser ext_ascii (cfg_none\<lparr>AllowAllUsers := True\<rparr>) zero_User) \<and>
   Username zero_User = []"
  by (simp add: verifyUser_def cfg_none_def zero_User_def)

text \<open>
  Claim C1, amended: for a User with an empty Username the decision is the configured
  mode's. The user is allowed under \<open>AllowAllUsers\<close> and when nothing is configured; in
  WhiteList mode the user is denied unless the WhiteList holds the empty string (an
  empty Username is no valid email, so case folding never applies); in TeamWhiteList
  and Domains mode the decision depends on TeamMemberships and Email alone.
\<close>

theorem verifyUser_empty_Username:
  assumes "Username user = []"
  shows "ok (verifyUser ext cfg user) \<longleftrightarrow>
     (AllowAllUsers cfg \<or>
      (if WhiteList cfg \<noteq> [] then [] \<in> set (WhiteList cfg)
       else if TeamWhiteList cfg \<noteq> [] then
         set (TeamMemberships user) \<inter> set (TeamWhiteList cfg) \<noteq> {}
       else if Domains cfg \<noteq> [] then domains_IsUnderManagement ext (Email user)
       else True))"
proof -
  have "\<not> isEmailValid (Username user)" using assms by (simp add: isEmailValid_def)
  then show ?thesis using assms
    by (simp add: ok_verifyUser WhiteList_loop_iff)
qed

theorem verifyUser_empty_Username_witness:
  "Username zero_User = [] \<and>
   \<not> ok (verifyUser ext_ascii (cfg_none\<lparr>WhiteList := [''bob@example.com'']\<rparr>) zero_User) \<and>
   ok (verifyUser ext_ascii cfg_none zero_User)"
  using verifyUser_empty_Username [of zero_User ext_ascii "cfg_none\<lparr>WhiteList := [''bob@example.com'']\<rparr>"]
        verifyUser_empty_Username [of zero_User ext_ascii cfg_none]
  by (simp add: zero_User_def cfg_none_def)

text \<open>
  Claim C2: verifyUser takes the modes in the order AllowAllUsers, WhiteList (non-empty),
  TeamWhiteList (non-empty), Domains (non-empty); the first mode that is configured
  decides alone, by the whitelist comparison, by a common team, or by
  \<open>IsUnderManagement\<close> of the Email; with none configured every user is allowed and
  the one log line is a warning.
\<close>

theorem verifyUser_priority:
  "(AllowAllUsers cfg \<longrightarrow> ok (verifyUser ext cfg user)) \<and>
   (\<not> AllowAllUsers cfg \<and> WhiteList cfg \<noteq> [] \<longrightarrow>
      ok (verifyUser ext cfg user) =
        (\<exists>wl \<in> set (WhiteList cfg). Username user = wl \<or>
           (isEmailValid (Username user) \<and> isUsernameCaseInsensitive ext cfg user \<and>
            strings_ToLower ext (Username user) = strings_ToLower ext wl))) \<and>
   (\<not> AllowAllUsers cfg \<and> WhiteList cfg = [] \<and> TeamWhiteList cfg \<noteq> [] \<longrightarrow>
      ok (verifyUser ext cfg user) =
        (set (TeamMemberships user) \<inter> set (TeamWhiteList cfg) \<noteq> {})) \<and>
   (\<not> AllowAllUsers cfg \<and> WhiteList cfg = [] \<and> TeamWhiteList cfg = [] \<and> Domains cfg \<noteq> [] \<longrightarrow>
      ok (verifyUser ext cfg user) = domains_IsUnderManagement ext (Email user)) \<and>
   (\<not> AllowAllUsers cfg \<and> WhiteList cfg = [] \<and> TeamWhiteList cfg = [] \<and> Domains cfg = [] \<longrightarrow>
      ok (verifyUser ext cfg user) \<and>
      (\<exists>msg. vlog (verifyUser ext cfg user) = [Logf WarnLevel msg]))"
proof -
  have "\<not> AllowAllUsers cfg \<and> WhiteList cfg = [] \<and> TeamWhiteList cfg = [] \<and> Domains cfg = [] \<longrightarrow>
      (\<exists>msg. vlog (verifyUser ext cfg user) = [Logf WarnLevel msg])"
    by (simp add: verifyUser_def)
  then show ?thesis
    by (simp add: ok_verifyUser WhiteList_loop_iff)
qed

theorem verifyUser_priority_witness:
  "ok (verifyUser ext_ascii (cfg_all_modes\<lparr>AllowAllUsers := True\<rparr>) user_alice) \<and>
   \<not> ok (verifyUser ext_ascii cfg_all_modes user_alice) \<and>
   ok (verifyUser ext_ascii (cfg_all_modes\<lparr>WhiteList := []\<rparr>) user_alice) \<and>
   \<not> ok (verifyUser ext_ascii (cfg_all_modes\<lparr>WhiteList := [], TeamWhiteList := []\<rparr>)
          (user_alice\<lparr>Email := ''alice@example.net''\<rparr>)) \<and>
   ok (verifyUser ext_ascii cfg_none user_alice) \<and>
   (\<exists>msg. vlog (verifyUser ext_ascii cfg_none user_alice) = [Logf WarnLevel msg])"
  using verifyUser_priority [of cfg_none ext_ascii user_alice]
        verifyUser_priority [of "cfg_all_modes\<lparr>AllowAllUsers := True\<rparr>" ext_ascii user_alice]
        priority_runs
  by (simp add: cfg_none_def cfg_all_modes_def cfg_S5_def)

text \<open>
  Claim C4: in WhiteList mode the user is allowed iff the Username equals an entry, or
  the Username is a valid email for which case is folded (\<open>CaseInsensitiveEmails\<close> is
  set, or its domain is one of \<open>CaseInsensitiveEmailDomains\<close>) and the folded Username
  equals the folded entry. The decision of \<open>verifyUser\<close> is the rule in the words of
  the specification, \<open>WhiteList_spec\<close>, for every \<open>strings.ToLower\<close> that folds ASCII
  strings the way Go's does.
\<close>

theorem WhiteList_mode_case_folding:
  assumes "folds_ascii (strings_ToLower ext)"
    and "\<not> AllowAllUsers cfg" and "WhiteList cfg \<noteq> []"
  shows "ok (verifyUser ext cfg user) = WhiteList_spec ext cfg user"
proof -
  have "isEmailValid (Username user) \<and> isUsernameCaseInsensitive ext cfg user
          \<longleftrightarrow> case_folded_spec ext cfg (Username user)"
  proof (cases "isEmailValid (Username user)")
    case True
    then have "MatchString emailRegex (Username user)"
      by (simp add: isEmailValid_def split: if_splits)
    then show ?thesis
      using True assms(1)
      by (simp add: isUsernameCaseInsensitive_def case_folded_spec_def
            caseInsensitiveDomain_loop_iff suffix_is_domain)
  next
    case False
    then show ?thesis by (simp add: case_folded_spec_def)
  qed
  then show ?thesis using assms(2,3)
    by (auto simp: ok_verifyUser WhiteList_loop_iff WhiteList_spec_def)
qed

theorem WhiteList_mode_case_folding_witness:
  "folds_ascii (strings_ToLower ext_ascii) \<and> \<not> AllowAllUsers cfg_S5 \<and> WhiteList cfg_S5 \<noteq> [] \<and>
   WhiteList_spec ext_ascii cfg_S5 user_S5 \<and> ok (verifyUser ext_ascii cfg_S5 user_S5)"
proof -
  have f: "folds_ascii (strings_ToLower ext_ascii)"
    by (simp add: ext_ascii_def folds_ascii_ascii_ToLower)
  have c: "\<not> AllowAllUsers cfg_S5" "WhiteList cfg_S5 \<noteq> []"
    by (simp_all add: cfg_S5_def cfg_none_def)
  have "ok (verifyUser ext_ascii cfg_S5 user_S5)"
    using S5_valid S5_suffix
    by (simp add: verifyUser_def cfg_S5_def cfg_none_def user_S5_def zero_User_def
          isUsernameCaseInsensitive_def ext_ascii_def S5_lower)
  with WhiteList_mode_case_folding [OF f c] f c show ?thesis by simp
qed

text \<open>
  Claim C10: isEmailValid is false for every string shorter than 3 or longer than 254
  bytes, whatever it holds; within the bounds it is the match of the anchored pattern,
  and the match decides membership in the language of the pattern.
\<close>

theorem isEmailValid_length_then_pattern:
  "(length e < 3 \<or> 254 < length e \<longrightarrow> \<not> isEmailValid e) \<and>
   (3 \<le> length e \<and> length e \<le> 254 \<longrightarrow>
      isEmailValid e = MatchString emailRegex e \<and>
      MatchString emailRegex e = (e \<in> lang emailRegex))"
  by (simp add: isEmailValid_def MatchString_iff)

theorem isEmailValid_length_then_pattern_witness:
  "isEmailValid ''a@b'' \<and> ''a@b'' \<in> lang emailRegex \<and>
   \<not> isEmailValid ''@b'' \<and>
   254 < length long_email \<and> MatchString emailRegex long_email \<and> \<not> isEmailValid long_email"
  using isEmailValid_length_then_pattern [of "''a@b''"]
        isEmailValid_length_then_pattern [of "''@b''"]
        isEmailValid_length_then_pattern [of long_email]
        long_match short_match
  by (simp add: long_email_def)

text \<open>
  Claim C3, at a failing input: when the body of the token response is no JSON, or its
  id_token is no JWS, the ADFS adapter logs an error and returns no error. The handler
  goes on with the zero-valued User (and, for the bad JWS, with the pass-through tokens
  filled in); with \<open>AllowAllUsers\<close> set it mints a token, sets the cookie and redirects
  with 302 where the claim has 400.
\<close>

theorem malformed_token_response_is_accepted:
  "json_Unmarshal_adfsTokenRes (adfs_env_with (respond_with ''<html>502 Bad Gateway</html>''))
     ''<html>502 Bad Gateway</html>'' = Inl (Err ''invalid character'') \<and>
   rerr (GetUserInfoFromADFS (adfs_env_with (respond_with ''<html>502 Bad Gateway</html>''))
           gen_S1 request_S1 zero_User (CustomClaims []) zero_PTokens) = None \<and>
   out_user (GetUserInfoFromADFS (adfs_env_with (respond_with ''<html>502 Bad Gateway</html>''))
           gen_S1 request_S1 zero_User (CustomClaims []) zero_PTokens) = zero_User \<and>
   rerr (GetUserInfoFromADFS (adfs_env_with (respond_with ''token-response-bad-jws''))
           gen_S1 request_S1 zero_User (CustomClaims []) zero_PTokens) = None \<and>
   out_user (GetUserInfoFromADFS (adfs_env_with (respond_with ''token-response-bad-jws''))
           gen_S1 request_S1 zero_User (CustomClaims []) zero_PTokens) = zero_User \<and>
   out_ptokens (GetUserInfoFromADFS (adfs_env_with (respond_with ''token-response-bad-jws''))
           gen_S1 request_S1 zero_User (CustomClaims []) zero_PTokens) =
     \<lparr>PAccessToken = ''AT'', PIdToken = ''not-a-jws''\<rparr> \<and>
   cookie_set (AuthStateHandler ext_ascii (cfg_none\<lparr>AllowAllUsers := True\<rparr>) gen_S1
      (auth_env_adfs (respond_with ''<html>502 Bad Gateway</html>'') session_S1) request_S1) \<and>
   map status_code (responses_of
     (AuthStateHandler ext_ascii (cfg_none\<lparr>AllowAllUsers := True\<rparr>) gen_S1
        (auth_env_adfs (respond_with ''<html>502 Bad Gateway</html>'') session_S1) request_S1))
     = [302]"
  by (simp add: run_defs)

text \<open>
  Claim C5, at a failing input: the exchange fails (the body of the token response is
  no JSON, or its id_token is no JWS, and the adapter logs the failure at error level),
  yet the adapter returns no error, so \<open>AuthStateHandler\<close> goes through \<open>verifyUser\<close> and
  the minting, sets the cookie and redirects with 302, where the claim has the error
  response and no cookie. The defect is the one of claim C3.
\<close>

theorem cookie_set_after_failed_exchange:
  "Logged (Logf ErrorLevel ''oauth2: cannot fetch token: %v'') \<in> set
     (AuthStateHandler ext_ascii (cfg_none\<lparr>AllowAllUsers := True\<rparr>) gen_S1
        (auth_env_adfs (respond_with ''<html>502 Bad Gateway</html>'') session_S1) request_S1) \<and>
   calls_before_cookie
     (AuthStateHandler ext_ascii (cfg_none\<lparr>AllowAllUsers := True\<rparr>) gen_S1
        (auth_env_adfs (respond_with ''<html>502 Bad Gateway</html>'') session_S1) request_S1)
     = [SessionGet, GetUserInfo, VerifyUser, NewVPJWT] \<and>
   filter is_SetCookie
     (AuthStateHandler ext_ascii (cfg_none\<lparr>AllowAllUsers := True\<rparr>) gen_S1
        (auth_env_adfs (respond_with ''<html>502 Bad Gateway</html>'') session_S1) request_S1)
     = [SetCookie ''jwt:''] \<and>
   responses_of
     (AuthStateHandler ext_ascii (cfg_none\<lparr>AllowAllUsers := True\<rparr>) gen_S1
        (auth_env_adfs (respond_with ''<html>502 Bad Gateway</html>'') session_S1) request_S1)
     = [Redirect302 ''https://app.example.com/x''] \<and>
   Logged (Logf ErrorLevel ''jws: invalid token received'') \<in> set
     (AuthStateHandler ext_ascii cfg_none gen_S1
        (auth_env_adfs (respond_with ''token-response-bad-jws'') session_S1) request_S1) \<and>
   filter is_SetCookie
     (AuthStateHandler ext_ascii cfg_none gen_S1
        (auth_env_adfs (respond_with ''token-response-bad-jws'') session_S1) request_S1)
     = [SetCookie ''jwt:''] \<and>
   map status_code (responses_of
     (AuthStateHandler ext_ascii cfg_none gen_S1
        (auth_env_adfs (respond_with ''token-response-bad-jws'') session_S1) request_S1))
     = [302]"
  by (simp add: run_defs)

text \<open>
  Claim C6, at a failing input: a session whose \<open>requestedURL\<close> is empty is neither
  changed nor saved by a successful \<open>/auth/{state}/\<close> (its trace holds no \<open>Save\<close>), so
  the same request on the same session succeeds a second time, with a cookie and status
  200 where the claim has 400.
\<close>

theorem state_accepted_twice:
  "cookie_set (fst (auth_twice ext_ascii cfg_carol gen_S1
      (auth_env_adfs (respond_with ''token-response'') session_no_url) session_no_url request_S1)) \<and>
   \<not> list_ex is_SessionSave (fst (auth_twice ext_ascii cfg_carol gen_S1
      (auth_env_adfs (respond_with ''token-response'') session_no_url) session_no_url request_S1)) \<and>
   map_option cookie_set (snd (auth_twice ext_ascii cfg_carol gen_S1
      (auth_env_adfs (respond_with ''token-response'') session_no_url) session_no_url request_S1))
     = Some True \<and>
   map_option responses_of (snd (auth_twice ext_ascii cfg_carol gen_S1
      (auth_env_adfs (respond_with ''token-response'') session_no_url) session_no_url request_S1))
     = Some [RenderIndex ''/auth jwt:carol@corp.local''] \<and>
   status_code (RenderIndex ''/auth jwt:carol@corp.local'') = 200"
  using carol_match by (simp add: auth_twice_def run_defs)

text \<open>
  Claim C7: when the adapter reaches its end (the token response and the id_token were
  decoded and the claims mapped) and \<open>PrepareUserData\<close> keeps Email and UPN of the
  decoded record, the Email of the resulting User is the UPN if the decoded Email is empty
  and the UPN matches the anchored email pattern, and the decoded Email otherwise.
\<close>

theorem GetUserInfoFromADFS_Email_from_UPN:
  assumes "http_NewRequest env ''POST'' (TokenURL gen) = None"
    and "client_Do env (TokenURL gen) (formData gen (Values_Get (Query r) ''code'')) = Inr userinfo"
    and "json_Unmarshal_adfsTokenRes env (Body userinfo) = Inr tokenRes"
    and "\<not> length (Split (IDToken tokenRes) CHR ''.'') < 2"
    and "base64_DecodeString env (Split (IDToken tokenRes) CHR ''.'' ! 1) = Inr idToken"
    and "snd (common_MapClaims env idToken customClaims) = None"
    and "json_Unmarshal_ADFSUser env idToken = adfsUser"
    and "Email (PrepareUserData env adfsUser) = Email adfsUser"
    and "UPN (PrepareUserData env adfsUser) = UPN adfsUser"
  shows "Email (out_user (GetUserInfoFromADFS env gen r user customClaims ptokens)) =
           (if Email adfsUser = [] \<and> MatchString rxEmail (UPN adfsUser) then UPN adfsUser
            else Email adfsUser)"
proof -
  obtain customClaims' where "common_MapClaims env idToken customClaims = (customClaims', None)"
    using assms(6) by (cases "common_MapClaims env idToken customClaims") simp
  with assms show ?thesis
    by (simp add: GetUserInfoFromADFS_def read_token_response_def email_from_UPN_def Let_def)
qed

theorem GetUserInfoFromADFS_Email_from_UPN_witness:
  "Email user_carol = [] \<and> MatchString rxEmail (UPN user_carol) \<and>
   Email (prepare_stub user_carol) = Email user_carol \<and>
   UPN (prepare_stub user_carol) = UPN user_carol \<and>
   Email (out_user (GetUserInfoFromADFS (adfs_env_with (respond_with ''token-response'')) gen_S1
      request_S1 zero_User (CustomClaims []) zero_PTokens)) = ''carol@corp.local''"
  using GetUserInfoFromADFS_Email_from_UPN
          [of "adfs_env_with (respond_with ''token-response'')" gen_S1 request_S1
              "\<lparr>Body = ''token-response'', Close_err = None\<rparr>"
              "\<lparr>AccessToken = ''AT'', TokenType = ''bearer'', IDToken = ''header.payload.sig'',
                ExpiresIn = 3600\<rparr>"
              "''claims-json''" "CustomClaims []" user_carol zero_User zero_PTokens]
        carol_match
  by (simp add: sample_defs Split_def)

text \<open>
  Claim C8: if the query of \<open>/auth\<close> has a non-empty \<open>error\<close> parameter, the response is
  401 and its error carries the IdP's error and error description; otherwise, if the
  \<open>state\<close> parameter is absent or empty, the response is 400. (A parameter's value is its
  first value, as \<open>Values.Get\<close> has it.)
\<close>

theorem CallbackHandler_error_then_state:
  "((\<exists>v. map_of (Query r) ''error'' = Some v \<and> v \<noteq> []) \<longrightarrow>
      responses_of (CallbackHandler r) =
        [Error401 (Errorf ''/auth Error from IdP: %s - %s''
           [AStr (Values_Get (Query r) ''error''),
            AStr (Values_Get (Query r) ''error_description'')])] \<and>
      map status_code (responses_of (CallbackHandler r)) = [401]) \<and>
   (\<not> (\<exists>v. map_of (Query r) ''error'' = Some v \<and> v \<noteq> []) \<and>
    (map_of (Query r) ''state'' = None \<or> map_of (Query r) ''state'' = Some []) \<longrightarrow>
      map status_code (responses_of (CallbackHandler r)) = [400])"
  by (auto simp: CallbackHandler_def Values_Get_map_of Let_def split: option.splits)

theorem CallbackHandler_error_then_state_witness:
  "map_of (Query request_error) ''error'' = Some ''access_denied'' \<and>
   responses_of (CallbackHandler request_error) =
     [Error401 (Errorf ''/auth Error from IdP: %s - %s'' [AStr ''access_denied'', AStr ''denied''])] \<and>
   map_of (Query request_no_state) ''error'' = None \<and>
   map_of (Query request_no_state) ''state'' = None \<and>
   map status_code (responses_of (CallbackHandler request_no_state)) = [400]"
  using CallbackHandler_error_then_state [of request_error]
        CallbackHandler_error_then_state [of request_no_state]
  by (simp add: request_error_def request_no_state_def)

text \<open>
  Claim C9: \<open>CallbackHandler\<close> never calls \<open>getUserInfo\<close>; with no \<open>error\<close> parameter and a
  non-empty \<open>state\<close> it logs and redirects with 302 to \<open>/auth/{state}/?\<close> followed by the
  raw query, and the exchange is made by \<open>AuthStateHandler\<close> once the state of the session
  is the state of the query.
\<close>

theorem CallbackHandler_redirects_without_exchange:
  "GetUserInfo \<notin> set (CallbackHandler r) \<and>
   (Values_Get (Query r) ''error'' = [] \<and> Values_Get (Query r) ''state'' \<noteq> [] \<longrightarrow>
      CallbackHandler r =
        [Logged (Logf DebugLevel ''/auth''),
         Respond (Redirect302 (''/auth/'' @ Values_Get (Query r) ''state'' @ ''/?'' @ RawQuery r))] \<and>
      map status_code (responses_of (CallbackHandler r)) = [302]) \<and>
   (\<forall>session opts. sessstore_Get env = Inr session \<and>
      Values session ''state'' = Some (SString (Values_Get (Query r) ''state'')) \<and>
      authCodeOptions gen session = Some opts \<longrightarrow>
      GetUserInfo \<in> set (AuthStateHandler ext cfg gen env r))"
  by (auto simp: CallbackHandler_def AuthStateHandler_def Let_def)

theorem CallbackHandler_redirects_without_exchange_witness:
  "Values_Get (Query request_S1) ''error'' = [] \<and> Values_Get (Query request_S1) ''state'' = ''S1'' \<and>
   CallbackHandler request_S1 =
     [Logged (Logf DebugLevel ''/auth''), Respond (Redirect302 ''/auth/S1/?code=C1&state=S1'')] \<and>
   GetUserInfo \<notin> set (CallbackHandler request_S1) \<and>
   GetUserInfo \<in> set (AuthStateHandler ext_ascii cfg_carol gen_S1
      (auth_env_adfs (respond_with ''token-response'') session_S1) request_S1)"
  using CallbackHandler_redirects_without_exchange
          [of request_S1 "auth_env_adfs (respond_with ''token-response'') session_S1" gen_S1
              ext_ascii cfg_carol]
        S1_exchange
  by (simp add: request_S1_def)

section \<open>Beyond the claims\<close>

text \<open>
  The steps of \<open>AuthStateHandler\<close>, by what its collaborators return: the cookie is set
  only when \<open>sessstore.Get\<close> found a session, the state of the session is the state of
  the query, \<open>getUserInfo\<close> returned no error, \<open>verifyUser\<close> allowed the user and
  \<open>NewVPJWT\<close> returned a token, the four calls made in that order before the cookie;
  when \<open>sessstore.Get\<close> fails, the states differ, \<open>getUserInfo\<close> returns an error,
  \<open>verifyUser\<close> denies or \<open>NewVPJWT\<close> fails, the response is 400, 400, 400, 403 or 500
  and no cookie is set.
\<close>

theorem AuthStateHandler_cookie_after_all_steps:
  "(cookie_set (AuthStateHandler ext cfg gen env r) \<longrightarrow>
      (\<exists>session opts tokenstring.
         sessstore_Get env = Inr session \<and>
         Values session ''state'' = Some (SString (Values_Get (Query r) ''state'')) \<and>
         authCodeOptions gen session = Some opts \<and>
         rerr (provider_GetUserInfo env r opts zero_User (CustomClaims []) zero_PTokens) = None \<and>
         ok (verifyUser ext cfg
               (out_user (provider_GetUserInfo env r opts zero_User (CustomClaims []) zero_PTokens))) \<and>
         jwtmanager_NewVPJWT env
           (out_user (provider_GetUserInfo env r opts zero_User (CustomClaims []) zero_PTokens))
           (out_claims (provider_GetUserInfo env r opts zero_User (CustomClaims []) zero_PTokens))
           (out_ptokens (provider_GetUserInfo env r opts zero_User (CustomClaims []) zero_PTokens))
           = Inr tokenstring \<and>
         calls_before_cookie (AuthStateHandler ext cfg gen env r) =
           [SessionGet, GetUserInfo, VerifyUser, NewVPJWT] \<and>
         filter is_SetCookie (AuthStateHandler ext cfg gen env r) = [SetCookie tokenstring])) \<and>
   ((\<exists>err. sessstore_Get env = Inl err) \<longrightarrow>
      \<not> cookie_set (AuthStateHandler ext cfg gen env r) \<and>
      map status_code (responses_of (AuthStateHandler ext cfg gen env r)) = [400]) \<and>
   (\<forall>session. sessstore_Get env = Inr session \<and>
      Values session ''state'' \<noteq> Some (SString (Values_Get (Query r) ''state'')) \<longrightarrow>
      \<not> cookie_set (AuthStateHandler ext cfg gen env r) \<and>
      map status_code (responses_of (AuthStateHandler ext cfg gen env r)) = [400]) \<and>
   (\<forall>session opts. sessstore_Get env = Inr session \<and>
      Values session ''state'' = Some (SString (Values_Get (Query r) ''state'')) \<and>
      authCodeOptions gen session = Some opts \<longrightarrow>
      (rerr (provider_GetUserInfo env r opts zero_User (CustomClaims []) zero_PTokens) \<noteq> None \<longrightarrow>
         \<not> cookie_set (AuthStateHandler ext cfg gen env r) \<and>
         map status_code (responses_of (AuthStateHandler ext cfg gen env r)) = [400]) \<and>
      (rerr (provider_GetUserInfo env r opts zero_User (CustomClaims []) zero_PTokens) = None \<and>
       \<not> ok (verifyUser ext cfg
               (out_user (provider_GetUserInfo env r opts zero_User (CustomClaims []) zero_PTokens))) \<longrightarrow>
         \<not> cookie_set (AuthStateHandler ext cfg gen env r) \<and>
         map status_code (responses_of (AuthStateHandler ext cfg gen env r)) = [403]) \<and>
      (rerr (provider_GetUserInfo env r opts zero_User (CustomClaims []) zero_PTokens) = None \<and>
       ok (verifyUser ext cfg
             (out_user (provider_GetUserInfo env r opts zero_User (CustomClaims []) zero_PTokens))) \<and>
       (\<exists>err. jwtmanager_NewVPJWT env
           (out_user (provider_GetUserInfo env r opts zero_User (CustomClaims []) zero_PTokens))
           (out_claims (provider_GetUserInfo env r opts zero_User (CustomClaims []) zero_PTokens))
           (out_ptokens (provider_GetUserInfo env r opts zero_User (CustomClaims []) zero_PTokens))
           = Inl err) \<longrightarrow>
         \<not> cookie_set (AuthStateHandler ext cfg gen env r) \<and>
         map status_code (responses_of (AuthStateHandler ext cfg gen env r)) = [500]))"
  by (auto simp: AuthStateHandler_def cookie_set_filter calls_before_cookie_def Let_def
        responses_of_append
      split: sum.splits option.splits if_splits)

theorem AuthStateHandler_cookie_after_all_steps_witness:
  "cookie_set (AuthStateHandler ext_ascii cfg_carol gen_S1
      (auth_env_adfs (respond_with ''token-response'') session_S1) request_S1) \<and>
   calls_before_cookie (AuthStateHandler ext_ascii cfg_carol gen_S1
      (auth_env_adfs (respond_with ''token-response'') session_S1) request_S1) =
     [SessionGet, GetUserInfo, VerifyUser, NewVPJWT] \<and>
   map status_code (responses_of (AuthStateHandler ext_ascii cfg_carol gen_S1
      auth_env_no_session request_S1)) = [400] \<and>
   \<not> cookie_set (AuthStateHandler ext_ascii cfg_carol gen_S1 auth_env_no_session request_S1) \<and>
   map status_code (responses_of (AuthStateHandler ext_ascii cfg_carol gen_S1
      (auth_env_adfs (respond_with ''token-response'') session_S1) request_no_state)) = [400] \<and>
   map status_code (responses_of (AuthStateHandler ext_ascii cfg_carol gen_S1
      (auth_env_adfs unreachable session_S1) request_S1)) = [400] \<and>
   map status_code (responses_of (AuthStateHandler ext_ascii cfg_S5 gen_S1
      (auth_env_adfs (respond_with ''token-response'') session_S1) request_S1)) = [403] \<and>
   \<not> cookie_set (AuthStateHandler ext_ascii cfg_S5 gen_S1
      (auth_env_adfs (respond_with ''token-response'') session_S1) request_S1) \<and>
   map status_code (responses_of (AuthStateHandler ext_ascii cfg_carol gen_S1
      auth_env_mint_fails request_S1)) = [500] \<and>
   \<not> cookie_set (AuthStateHandler ext_ascii cfg_carol gen_S1 auth_env_mint_fails request_S1)"
  using AuthStateHandler_cookie_after_all_steps
          [of ext_ascii cfg_carol gen_S1
              "auth_env_adfs (respond_with ''token-response'') session_S1" request_S1]
        AuthStateHandler_cookie_after_all_steps
          [of ext_ascii cfg_carol gen_S1 auth_env_no_session request_S1]
        AuthStateHandler_cookie_after_all_steps
          [of ext_ascii cfg_carol gen_S1
              "auth_env_adfs (respond_with ''token-response'') session_S1" request_no_state]
        AuthStateHandler_cookie_after_all_steps
          [of ext_ascii cfg_carol gen_S1 "auth_env_adfs unreachable session_S1" request_S1]
        AuthStateHandler_cookie_after_all_steps
          [of ext_ascii cfg_S5 gen_S1
              "auth_env_adfs (respond_with ''token-response'') session_S1" request_S1]
        AuthStateHandler_cookie_after_all_steps
          [of ext_ascii cfg_carol gen_S1 auth_env_mint_fails request_S1]
        S1_cookie
  by (auto simp add: step_runs carol_runs carol_verdicts)

end
